theory Spec2Isabelle
  imports Main
begin

section \<open>Text: characters, whitespace, case\<close>

text \<open>
  A Python \<open>str\<close> whose code points are all below 256 is a HOL \<open>string\<close>; a
  \<open>char\<close> is read as its code point. The three character classes below are
  \<open>str.isspace\<close> (also the regular-expression class \<open>\s\<close>), the class \<open>\w\<close>
  (\<open>str.isalnum\<close> or an underscore) and \<open>str.lower\<close>, each on that range.
\<close>

definition is_space :: "char \<Rightarrow> bool" where
  "is_space c =
     (let n = (of_char c :: nat)
      in (9 \<le> n \<and> n \<le> 13) \<or> (28 \<le> n \<and> n \<le> 32) \<or> n = 133 \<or> n = 160)"

definition is_word :: "char \<Rightarrow> bool" where
  "is_word c =
     (let n = (of_char c :: nat)
      in (48 \<le> n \<and> n \<le> 57) \<or> (65 \<le> n \<and> n \<le> 90) \<or> n = 95 \<or> (97 \<le> n \<and> n \<le> 122)
         \<or> n = 170 \<or> n = 178 \<or> n = 179 \<or> n = 181 \<or> n = 185 \<or> n = 186
         \<or> (188 \<le> n \<and> n \<le> 190) \<or> (192 \<le> n \<and> n \<le> 214)
         \<or> (216 \<le> n \<and> n \<le> 246) \<or> (248 \<le> n \<and> n \<le> 255))"

definition is_upper :: "char \<Rightarrow> bool" where
  "is_upper c =
     (let n = (of_char c :: nat)
      in (65 \<le> n \<and> n \<le> 90) \<or> (192 \<le> n \<and> n \<le> 214) \<or> (216 \<le> n \<and> n \<le> 222))"

definition lower_char :: "char \<Rightarrow> char" where
  "lower_char c = (if is_upper c then char_of (of_char c + (32 :: nat)) else c)"

text \<open>\<open>s.lower()\<close>\<close>

definition lower :: "string \<Rightarrow> string" where
  "lower s = map lower_char s"

text \<open>\<open>s.strip()\<close>: whitespace is removed at both ends.\<close>

definition lstrip :: "string \<Rightarrow> string" where
  "lstrip s = dropWhile is_space s"

definition rstrip :: "string \<Rightarrow> string" where
  "rstrip s = rev (dropWhile is_space (rev s))"

definition strip :: "string \<Rightarrow> string" where
  "strip s = rstrip (lstrip s)"

text \<open>\<open>needle in hay\<close> on strings: \<open>needle\<close> occurs as a contiguous run.\<close>

fun starts_with :: "string \<Rightarrow> string \<Rightarrow> bool" where
  "starts_with [] hay = True"
| "starts_with (n # ns) [] = False"
| "starts_with (n # ns) (h # hs) = (n = h \<and> starts_with ns hs)"

fun str_in :: "string \<Rightarrow> string \<Rightarrow> bool" where
  "str_in needle [] = (needle = [])"
| "str_in needle (h # hs) = (starts_with needle (h # hs) \<or> str_in needle hs)"

text \<open>\<open>sep.join(lines)\<close>\<close>

fun join :: "string \<Rightarrow> string list \<Rightarrow> string" where
  "join sep [] = []"
| "join sep [l] = l"
| "join sep (l # ls) = l @ sep @ join sep ls"

section \<open>Record model: \<open>BibtexEntry\<close>\<close>

subsection \<open>Brace balancing\<close>

text \<open>
  The loop of \<open>_balance_braces\<close>: \<open>result\<close> and \<open>brace_count\<close> are the loop's
  two variables, the third argument is the text still to be read.
\<close>

fun balance_loop :: "string \<Rightarrow> nat \<Rightarrow> string \<Rightarrow> string \<times> nat" where
  "balance_loop result brace_count [] = (result, brace_count)"
| "balance_loop result brace_count (c # cs) =
     (if c = CHR ''{'' then balance_loop (result @ [c]) (brace_count + 1) cs
      else if c = CHR ''}'' then
        (if brace_count > 0 then balance_loop (result @ [c]) (brace_count - 1) cs
         else balance_loop result brace_count cs)
      else balance_loop (result @ [c]) brace_count cs)"

definition balance_braces :: "string \<Rightarrow> string" where
  "balance_braces text =
     (let (result, brace_count) = balance_loop [] 0 (strip text)
      in if brace_count > 0 then result @ replicate brace_count CHR ''}'' else result)"

text \<open>Number of opening and of closing braces of a text.\<close>

definition opens :: "string \<Rightarrow> nat" where
  "opens s = length (filter (\<lambda>c. c = CHR ''{'') s)"

definition closes :: "string \<Rightarrow> nat" where
  "closes s = length (filter (\<lambda>c. c = CHR ''}'') s)"


subsection \<open>The record and its constructor\<close>

text \<open>
  \<open>entry_fields\<close> is the attribute \<open>fields\<close>, a Python dict from field name to raw value
  (the name \<open>fields\<close> is taken in HOL). The constructor lowercases
  the entry type and stores key and fields as given.
\<close>

record bibtex_entry =
  entry_type :: string
  cite_key :: string
  entry_fields :: "string \<rightharpoonup> string"

definition BibtexEntry :: "string \<Rightarrow> string \<Rightarrow> (string \<rightharpoonup> string) \<Rightarrow> bibtex_entry" where
  "BibtexEntry etype key fs = \<lparr>entry_type = lower etype, cite_key = key, entry_fields = fs\<rparr>"

subsection \<open>\<open>get_title\<close>\<close>

text \<open>\<open>re.sub(r'[{}]', '', s)\<close>: every brace character is deleted.\<close>

definition remove_braces :: "string \<Rightarrow> string" where
  "remove_braces s = filter (\<lambda>c. c \<noteq> CHR ''{'' \<and> c \<noteq> CHR ''}'') s"

text \<open>\<open>re.sub(r'\s+', ' ', s)\<close>: every maximal run of whitespace becomes one space.\<close>

function collapse_ws :: "string \<Rightarrow> string" where
  "collapse_ws [] = []"
| "collapse_ws (c # cs) =
     (if is_space c then CHR '' '' # collapse_ws (dropWhile is_space cs)
      else c # collapse_ws cs)"
  by pat_completeness auto
termination
  by (relation "measure length") (auto simp: length_dropWhile_le less_Suc_eq_le)

text \<open>\<open>d.get(key, '')\<close>\<close>

definition get_or_empty :: "(string \<rightharpoonup> string) \<Rightarrow> string \<Rightarrow> string" where
  "get_or_empty d key = (case d key of None \<Rightarrow> [] | Some v \<Rightarrow> v)"

definition get_title :: "bibtex_entry \<Rightarrow> string" where
  "get_title e =
     (let title = strip (get_or_empty (entry_fields e) ''title'');
          title = remove_braces title;
          title = strip (collapse_ws title)
      in title)"

subsection \<open>\<open>to_bibtex\<close>\<close>

definition essential_fields :: "string list" where
  "essential_fields =
     [''author'', ''title'', ''booktitle'', ''journal'', ''year'', ''pages'', ''volume'', ''number'']"

text \<open>\<open>s.find(c)\<close> for a single character: the first index of \<open>c\<close>, or \<open>-1\<close>.\<close>

fun find_char :: "char \<Rightarrow> string \<Rightarrow> int" where
  "find_char c [] = -1"
| "find_char c (x # xs) =
     (if x = c then 0 else (let i = find_char c xs in if i = -1 then -1 else i + 1))"

text \<open>The body of the loop over \<open>essential_fields\<close> for a field that is emitted.\<close>

definition clean_booktitle :: "string \<Rightarrow> string" where
  "clean_booktitle value =
     (let comma_pos = find_char CHR '','' value;
          value = (if comma_pos \<noteq> -1 then strip (take (nat comma_pos) value) else value);
          value = balance_braces value
      in strip (collapse_ws value))"

definition format_value :: "string \<Rightarrow> string \<Rightarrow> string" where
  "format_value key value =
     (let value = (if lower key = ''booktitle'' then clean_booktitle value else value)
      in if lower key \<in> set [''title'', ''booktitle'', ''journal'', ''author'']
         then ''{'' @ value @ ''}''
         else if CHR '' '' \<in> set value
                 \<or> list_ex (\<lambda>ch. ch \<in> set value) [CHR ''-'', CHR '':'', CHR ''/'', CHR ''.'']
         then ''{'' @ value @ ''}''
         else value)"

definition field_line :: "string \<Rightarrow> string \<Rightarrow> string" where
  "field_line key value = ''  '' @ key @ '' = '' @ format_value key value @ '',''"

text \<open>\<open>key in self.fields and self.fields[key]\<close>\<close>

definition has_value :: "bibtex_entry \<Rightarrow> string \<Rightarrow> bool" where
  "has_value e key = (case entry_fields e key of None \<Rightarrow> False | Some v \<Rightarrow> v \<noteq> [])"

fun to_bibtex_loop :: "bibtex_entry \<Rightarrow> string list \<Rightarrow> string list \<Rightarrow> string list" where
  "to_bibtex_loop e lines [] = lines"
| "to_bibtex_loop e lines (key # keys) =
     (if has_value e key
      then to_bibtex_loop e (lines @ [field_line key (the (entry_fields e key))]) keys
      else to_bibtex_loop e lines keys)"

definition header_line :: "bibtex_entry \<Rightarrow> string" where
  "header_line e = ''@'' @ entry_type e @ ''{'' @ cite_key e @ '',''"

definition to_bibtex_lines :: "bibtex_entry \<Rightarrow> string list" where
  "to_bibtex_lines e = to_bibtex_loop e [header_line e] essential_fields @ [''}'']"

definition to_bibtex :: "bibtex_entry \<Rightarrow> string" where
  "to_bibtex e = join [CHR 0x0A] (to_bibtex_lines e)"



section \<open>Regular expressions\<close>

text \<open>
  The program's patterns are sequences of single characters and character classes, each
  taken once, or repeated greedily (\<open>*\<close>, \<open>+\<close>) or lazily (\<open>*?\<close>, \<open>+?\<close>), with
  groups, the anchor \<open>$\<close> and one lookahead. \<open>rmatch\<close> is the backtracking matcher of
  Python's \<open>re\<close> on such a sequence, started at the head of the text: a greedy repetition
  first tries to take one more character and falls back to the rest of the pattern, a lazy
  one first tries the rest of the pattern. \<open>X+\<close> is written \<open>X\<close> followed by \<open>X*\<close>.
  \<open>Mark\<close> stands for a group's parenthesis: a successful match returns the text that
  was left at each parenthesis, in the order of the pattern, and the text left after the
  match. \<open>Eol\<close> is \<open>$\<close> without the MULTILINE flag: the end of the text, or just
  before a newline that ends the text. \<open>Ahead f\<close> is a lookahead \<open>(?=...)\<close> whose
  pattern accepts the texts on which \<open>f\<close> holds.
\<close>

datatype item =
    One "char \<Rightarrow> bool"
  | StarG "char \<Rightarrow> bool"
  | StarL "char \<Rightarrow> bool"
  | Eol
  | Mark
  | Ahead "string \<Rightarrow> bool"

fun rmatch :: "item list \<Rightarrow> string \<Rightarrow> (string list \<times> string) option" where
  "rmatch [] s = Some ([], s)"
| "rmatch (One p # r) [] = None"
| "rmatch (One p # r) (c # cs) = (if p c then rmatch r cs else None)"
| "rmatch (StarG p # r) [] = rmatch r []"
| "rmatch (StarG p # r) (c # cs) =
     (if p c
      then (case rmatch (StarG p # r) cs of Some m \<Rightarrow> Some m | None \<Rightarrow> rmatch r (c # cs))
      else rmatch r (c # cs))"
| "rmatch (StarL p # r) [] = rmatch r []"
| "rmatch (StarL p # r) (c # cs) =
     (case rmatch r (c # cs) of
        Some m \<Rightarrow> Some m
      | None \<Rightarrow> if p c then rmatch (StarL p # r) cs else None)"
| "rmatch (Eol # r) s = (if s = [] \<or> s = [CHR 0x0A] then rmatch r s else None)"
| "rmatch (Mark # r) s =
     (case rmatch r s of None \<Rightarrow> None | Some (marks, rest) \<Rightarrow> Some (s # marks, rest))"
| "rmatch (Ahead f # r) s = (if f s then rmatch r s else None)"

text \<open>
  \<open>m.group(n)\<close>: the text between the \<open>n\<close>-th pair of parentheses. A match of a
  pattern with \<open>k\<close> groups returns \<open>2 * k\<close> marks.
\<close>

definition between :: "string \<Rightarrow> string \<Rightarrow> string" where
  "between start stop = take (length start - length stop) start"

definition group :: "string list \<Rightarrow> nat \<Rightarrow> string" where
  "group marks n = between (marks ! (2 * n - 2)) (marks ! (2 * n - 1))"

text \<open>
  \<open>re.finditer(pattern, s)\<close>: the matches from left to right, each search starting
  where the last match ended. None of the program's patterns matches the empty text; after
  an empty match the search would move on by one character.
\<close>

function finditer :: "item list \<Rightarrow> string \<Rightarrow> string list list" where
  "finditer re [] = (case rmatch re [] of None \<Rightarrow> [] | Some (marks, rest) \<Rightarrow> [marks])"
| "finditer re (c # cs) =
     (case rmatch re (c # cs) of
        None \<Rightarrow> finditer re cs
      | Some (marks, rest) \<Rightarrow>
          marks # finditer re (if length rest < length (c # cs) then rest else cs))"
  by pat_completeness auto
termination
  by (relation "measure (\<lambda>(re, s). length s)") auto

text \<open>
  \<open>re.sub(pattern, repl, s)\<close> for a pattern that does not start with \<open>^\<close>: every
  match is replaced, the text between matches is kept.
\<close>

function re_sub :: "item list \<Rightarrow> (string list \<Rightarrow> string) \<Rightarrow> string \<Rightarrow> string" where
  "re_sub re repl [] = []"
| "re_sub re repl (c # cs) =
     (case rmatch re (c # cs) of
        None \<Rightarrow> c # re_sub re repl cs
      | Some (marks, rest) \<Rightarrow>
          if length rest < length (c # cs) then repl marks @ re_sub re repl rest
          else c # re_sub re repl cs)"
  by pat_completeness auto
termination
  by (relation "measure (\<lambda>(re, repl, s). length s)") auto

text \<open>
  \<open>re.sub('^' + pattern, repl, s)\<close>: without the MULTILINE flag \<open>^\<close> matches at the
  start of the text only, so at most one match is replaced.
\<close>

definition re_sub_start :: "item list \<Rightarrow> (string list \<Rightarrow> string) \<Rightarrow> string \<Rightarrow> string" where
  "re_sub_start re repl s =
     (case rmatch re s of None \<Rightarrow> s | Some (marks, rest) \<Rightarrow> repl marks @ rest)"

definition is_char :: "char \<Rightarrow> char \<Rightarrow> bool" where
  "is_char a c = (c = a)"

definition any_char :: "char \<Rightarrow> bool" where
  "any_char c = True"

text \<open>\<open>.\<close> without the DOTALL flag\<close>

definition not_newline :: "char \<Rightarrow> bool" where
  "not_newline c = (c \<noteq> CHR 0x0A)"

section \<open>Record parser: \<open>BibtexParser\<close>\<close>

subsection \<open>\<open>_parse_fields\<close>\<close>

text \<open>\<open>,\s*$\<close>\<close>

definition trailing_comma_pattern :: "item list" where
  "trailing_comma_pattern = [One (is_char CHR '',''), StarG is_space, Eol]"

definition is_quote :: "char \<Rightarrow> bool" where
  "is_quote c = (c = CHR 0x22 \<or> c = CHR 0x27)"

text \<open>\<open>^["\'](.*)["\']$\<close>\<close>

definition quoted_pattern :: "item list" where
  "quoted_pattern = [One is_quote, Mark, StarG not_newline, Mark, One is_quote, Eol]"

text \<open>\<open>^\{(.*)\}$\<close>\<close>

definition braced_pattern :: "item list" where
  "braced_pattern =
     [One (is_char CHR ''{''), Mark, StarG not_newline, Mark, One (is_char CHR ''}''), Eol]"

text \<open>The three substitutions applied to a field's value after \<open>strip\<close>.\<close>

definition unwrap_value :: "string \<Rightarrow> string" where
  "unwrap_value value =
     (let value = re_sub trailing_comma_pattern (\<lambda>marks. []) value;
          value = re_sub_start quoted_pattern (\<lambda>marks. group marks 1) value;
          value = re_sub_start braced_pattern (\<lambda>marks. group marks 1) value
      in value)"

text \<open>\<open>(\w+)\s*=\s*(.+?)(?=,\s*\w+\s*=|$)\<close> with the DOTALL flag\<close>

definition next_field_ahead :: "string \<Rightarrow> bool" where
  "next_field_ahead s =
     (rmatch [One (is_char CHR '',''), StarG is_space, One is_word, StarG is_word,
              StarG is_space, One (is_char CHR ''='')] s \<noteq> None
      \<or> rmatch [Eol] s \<noteq> None)"

definition field_pattern :: "item list" where
  "field_pattern =
     [Mark, One is_word, StarG is_word, Mark, StarG is_space, One (is_char CHR ''=''),
      StarG is_space, Mark, One any_char, StarL any_char, Mark, Ahead next_field_ahead]"

definition parse_field :: "(string \<rightharpoonup> string) \<Rightarrow> string list \<Rightarrow> (string \<rightharpoonup> string)" where
  "parse_field fs marks =
     (let key = strip (group marks 1);
          value = strip (group marks 2);
          value = unwrap_value value
      in fs(key \<mapsto> value))"

definition parse_fields :: "string \<Rightarrow> (string \<rightharpoonup> string)" where
  "parse_fields fields_str = foldl parse_field Map.empty (finditer field_pattern fields_str)"

subsection \<open>\<open>parse_content\<close>\<close>

text \<open>
  \<open>@(\w+)\s*\{\s*([^,\s]+)\s*,\s*(.*?)\n\s*\}\<close> with the flags DOTALL and IGNORECASE;
  the pattern has no letter, and its classes hold for a letter in either case.
\<close>

definition key_char :: "char \<Rightarrow> bool" where
  "key_char c = (c \<noteq> CHR '','' \<and> \<not> is_space c)"

definition entry_pattern :: "item list" where
  "entry_pattern =
     [One (is_char CHR ''@''), Mark, One is_word, StarG is_word, Mark, StarG is_space,
      One (is_char CHR ''{''), StarG is_space, Mark, One key_char, StarG key_char, Mark,
      StarG is_space, One (is_char CHR '',''), StarG is_space, Mark, StarL any_char, Mark,
      One (is_char CHR 0x0A), StarG is_space, One (is_char CHR ''}'')]"

definition parse_entry :: "string list \<Rightarrow> bibtex_entry" where
  "parse_entry marks =
     (let entry_type = group marks 1;
          cite_key = group marks 2;
          fields_str = group marks 3
      in BibtexEntry entry_type cite_key (parse_fields fields_str))"

definition parse_content :: "string \<Rightarrow> bibtex_entry list" where
  "parse_content content = map parse_entry (finditer entry_pattern content)"


section \<open>Index client: \<open>DBLPSearcher\<close>\<close>

subsection \<open>Search hits and the network\<close>

text \<open>
  A hit is a JSON object; the program reads \<open>info.venue\<close> and \<open>info.url\<close> of it,
  each with the default \<open>''\<close>. A venue is a string, an object (of which the program reads
  the string \<open>text\<close>, with the default \<open>''\<close>; \<open>VDict None\<close> is an object without it), or
  any other JSON value.
\<close>

datatype venue = VStr string | VDict "string option" | VOther

record hit =
  hit_venue :: venue
  hit_url :: string

text \<open>
  The value \<open>hit_list\<close> that \<open>search_by_title\<close> extracts from a response: a list of
  hits, a single non-empty object taken as one hit, or any other value, of which only the
  truth value matters (an empty object is \<open>HOther False\<close>).
\<close>

datatype hit_list = HList "hit list" | HDict hit | HOther bool

fun truthy :: "hit_list \<Rightarrow> bool" where
  "truthy (HList hits) = (hits \<noteq> [])"
| "truthy (HDict h) = True"
| "truthy (HOther b) = b"

text \<open>
  The outside world is a state \<open>'w\<close> that every request and every \<open>time.sleep\<close>
  changes. \<open>search_get q w\<close> is the GET of the search API with query \<open>q\<close> followed by
  the extraction of the hit list; it yields \<open>None\<close> when \<open>requests.RequestException\<close> or
  \<open>json.JSONDecodeError\<close> is raised. \<open>bib_get url w\<close> is the GET of a BibTeX export.
  \<open>quote_plus\<close> is \<open>urllib.parse.quote_plus\<close>.
\<close>

datatype response = RequestError | OtherError | Body string

record 'w env =
  quote_plus :: "string \<Rightarrow> string"
  search_get :: "string \<Rightarrow> 'w \<Rightarrow> hit_list option \<times> 'w"
  bib_get :: "string \<Rightarrow> 'w \<Rightarrow> response \<times> 'w"
  sleep :: "'w \<Rightarrow> 'w"

subsection \<open>Preprint filter\<close>

definition mentions_arxiv :: "string \<Rightarrow> bool" where
  "mentions_arxiv v = (str_in ''arxiv'' (lower v) \<or> str_in ''corr'' (lower v))"

definition is_arxiv_hit :: "hit \<Rightarrow> bool" where
  "is_arxiv_hit h =
     (case hit_venue h of
        VStr v \<Rightarrow> mentions_arxiv v
      | VDict t \<Rightarrow> (let venue_text = (case t of None \<Rightarrow> [] | Some x \<Rightarrow> x) in mentions_arxiv venue_text)
      | VOther \<Rightarrow> False)"

definition filter_arxiv_hits :: "hit list \<Rightarrow> hit list" where
  "filter_arxiv_hits hits = filter (\<lambda>h. \<not> is_arxiv_hit h) hits"

subsection \<open>\<open>search_by_title\<close>\<close>

text \<open>
  The decision on a non-empty hit list: the value of \<open>result\<close> when the \<open>try\<close> block
  reaches the rate-limiting \<open>sleep\<close>.
\<close>

definition choose_hit :: "hit_list \<Rightarrow> hit option" where
  "choose_hit hl =
     (case hl of
        HList hits \<Rightarrow>
          (let filtered_hits = filter_arxiv_hits hits
           in if length filtered_hits = 0 then None
              else if length filtered_hits = 1 then Some (filtered_hits ! 0)
              else None)
      | HDict h \<Rightarrow> (if is_arxiv_hit h then None else Some h)
      | HOther b \<Rightarrow> None)"

text \<open>
  One pass through the \<open>try\<close> block: an exception, a \<open>return None\<close> on an empty hit
  list (which skips the \<open>sleep\<close>), or a result followed by the \<open>sleep\<close>.
\<close>

datatype attempt = Raised | NoHits | Result "hit option"

definition after_hits :: "'w env \<Rightarrow> hit_list \<Rightarrow> 'w \<Rightarrow> attempt \<times> 'w" where
  "after_hits env hl w = (if \<not> truthy hl then (NoHits, w) else (Result (choose_hit hl), w))"

definition search_try :: "'w env \<Rightarrow> string \<Rightarrow> 'w \<Rightarrow> attempt \<times> 'w" where
  "search_try env title w =
     (case search_get env ([CHR 0x22] @ title @ [CHR 0x22]) w of
        (None, w1) \<Rightarrow> (Raised, w1)
      | (Some hl, w1) \<Rightarrow>
          if \<not> truthy hl
          then (case search_get env (quote_plus env title) w1 of
                  (None, w2) \<Rightarrow> (Raised, w2)
                | (Some hl2, w2) \<Rightarrow> after_hits env hl2 w2)
          else after_hits env hl w1)"

text \<open>
  The loop \<open>for attempt in range(self.max_retries)\<close>; the first argument counts the
  attempts still to be made, so \<open>attempt_num < self.max_retries\<close> says that one more is
  left after this one.
\<close>

fun search_attempts :: "'w env \<Rightarrow> nat \<Rightarrow> string \<Rightarrow> 'w \<Rightarrow> hit option \<times> 'w" where
  "search_attempts env 0 title w = (None, w)"
| "search_attempts env (Suc left) title w =
     (case search_try env title w of
        (Result r, w1) \<Rightarrow> (r, sleep env w1)
      | (NoHits, w1) \<Rightarrow> (None, w1)
      | (Raised, w1) \<Rightarrow>
          if left > 0 then search_attempts env left title (sleep env w1) else (None, w1))"

definition search_by_title :: "'w env \<Rightarrow> nat \<Rightarrow> string \<Rightarrow> 'w \<Rightarrow> hit option \<times> 'w" where
  "search_by_title env max_retries title w =
     (if strip title = [] then (None, w) else search_attempts env max_retries title w)"

subsection \<open>\<open>download_bibtex_from_dblp\<close>\<close>

fun download_attempts ::
  "'w env \<Rightarrow> nat \<Rightarrow> string \<Rightarrow> string \<Rightarrow> 'w \<Rightarrow> bibtex_entry option \<times> 'w" where
  "download_attempts env 0 bib_url original_cite_key w = (None, w)"
| "download_attempts env (Suc left) bib_url original_cite_key w =
     (case bib_get env bib_url w of
        (RequestError, w1) \<Rightarrow>
          if left > 0 then download_attempts env left bib_url original_cite_key w1
          else (None, w1)
      | (OtherError, w1) \<Rightarrow> (None, w1)
      | (Body bib_content, w1) \<Rightarrow>
          if strip bib_content = [] then (None, w1)
          else (case parse_content bib_content of
                  [] \<Rightarrow> (None, w1)
                | entry # others \<Rightarrow> (Some (entry\<lparr>cite_key := original_cite_key\<rparr>), w1)))"

definition download_bibtex_from_dblp ::
  "'w env \<Rightarrow> nat \<Rightarrow> hit \<Rightarrow> string \<Rightarrow> 'w \<Rightarrow> bibtex_entry option \<times> 'w" where
  "download_bibtex_from_dblp env max_retries h original_cite_key w =
     (let dblp_url = hit_url h
      in if dblp_url = [] then (None, w)
         else download_attempts env max_retries (dblp_url @ ''.bib?param=1'') original_cite_key w)"

section \<open>Resolution pipeline: \<open>main\<close>\<close>

text \<open>
  The loop over the parsed entries; \<open>updated_entries\<close> and \<open>failed_entries\<close> are the
  two lists it appends to.
\<close>

fun process_entries ::
  "'w env \<Rightarrow> nat \<Rightarrow> bibtex_entry list \<Rightarrow> bibtex_entry list \<Rightarrow> string list \<Rightarrow> 'w
   \<Rightarrow> (bibtex_entry list \<times> string list) \<times> 'w" where
  "process_entries env max_retries [] updated_entries failed_entries w =
     ((updated_entries, failed_entries), w)"
| "process_entries env max_retries (entry # entries) updated_entries failed_entries w =
     (let title = get_title entry
      in if title = []
         then process_entries env max_retries entries
                (updated_entries @ [entry]) (failed_entries @ [cite_key entry]) w
         else (case search_by_title env max_retries title w of
                 (None, w1) \<Rightarrow>
                   process_entries env max_retries entries
                     (updated_entries @ [entry]) (failed_entries @ [cite_key entry]) w1
               | (Some h, w1) \<Rightarrow>
                   (case download_bibtex_from_dblp env max_retries h (cite_key entry) w1 of
                      (None, w2) \<Rightarrow>
                        process_entries env max_retries entries
                          (updated_entries @ [entry]) (failed_entries @ [cite_key entry]) w2
                    | (Some updated_entry, w2) \<Rightarrow>
                        process_entries env max_retries entries
                          (updated_entries @ [updated_entry]) failed_entries w2)))"

text \<open>
  \<open>main\<close> on the text of the input file: nothing is written when no entry is parsed;
  otherwise the output file holds every updated entry followed by an empty line. The
  searcher is built with the default \<open>max_retries = 3\<close>.
\<close>

definition write_entries :: "bibtex_entry list \<Rightarrow> string" where
  "write_entries updated_entries =
     concat (map (\<lambda>entry. to_bibtex entry @ [CHR 0x0A, CHR 0x0A]) updated_entries)"

definition main :: "'w env \<Rightarrow> string \<Rightarrow> 'w \<Rightarrow> (string \<times> string list) option" where
  "main env content w =
     (let entries = parse_content content
      in if entries = [] then None
         else (case process_entries env 3 entries [] [] w of
                 ((updated_entries, failed_entries), w1) \<Rightarrow>
                   Some (write_entries updated_entries, failed_entries)))"

section \<open>Notions used to state the properties\<close>

subsection \<open>Preprint venues\<close>





subsection \<open>Outcome of resolving one entry\<close>

text \<open>
  An output record belongs to an input record when it is that record, unchanged, or the
  record that \<open>download_bibtex_from_dblp\<close> returned for a hit found by the search for the
  input record's title, under the input record's key.
\<close>

definition kept_or_substituted :: "'w env \<Rightarrow> nat \<Rightarrow> bibtex_entry \<Rightarrow> bibtex_entry \<Rightarrow> bool" where
  "kept_or_substituted env max_retries entry out \<longleftrightarrow>
     out = entry \<or>
     (\<exists>h w w1 w2. search_by_title env max_retries (get_title entry) w = (Some h, w1) \<and>
        download_bibtex_from_dblp env max_retries h (cite_key entry) w1 = (Some out, w2))"

subsection \<open>Unwrapping a field value\<close>





subsection \<open>Lowercase text\<close>


subsection \<open>A mocked index\<close>

text \<open>
  A search that answers every query with the given hits and a retrieval that answers every
  request with the given text; the state counts the requests.
\<close>

definition mock_hit :: hit where
  "mock_hit = \<lparr>hit_venue = VStr ''ICML'', hit_url = ''https://dblp.org/rec/conf/icml/XY20''\<rparr>"


definition mock_env :: "hit list \<Rightarrow> string \<Rightarrow> nat env" where
  "mock_env hits bib =
     \<lparr>quote_plus = (\<lambda>t. t),
      search_get = (\<lambda>q w. (Some (HList hits), w + 1)),
      bib_get = (\<lambda>url w. (Body bib, w + 1)),
      sleep = (\<lambda>w. w)\<rparr>"


definition input_entry :: bibtex_entry where
  "input_entry = \<lparr>entry_type = ''article'', cite_key = ''ab12'',
     entry_fields = [''title'' \<mapsto> ''Deep Learning'', ''author'' \<mapsto> ''X Y'', ''venue'' \<mapsto> ''noise'']\<rparr>"

definition retrieved_one_line :: string where
  "retrieved_one_line = ''@article{newkey, title={Deep Learning}, author={X Y}, year={2020}}''"

definition retrieved_lines :: string where
  "retrieved_lines = join [CHR 0x0A]
     [''@article{newkey,'', ''  title={Deep Learning},'', ''  author={X Y},'', ''  year={2020}'', ''}'']"

definition input_lines :: string where
  "input_lines = join [CHR 0x0A]
     [''@article{ab12,'', ''  title = {Deep Learning},'', ''  author = {X Y},'', ''  venue = {noise}'', ''}'']"


text \<open>The output that the example of the specification names, and a text without its whitespace.\<close>

definition claimed_output :: string where
  "claimed_output = ''@article{ab12, author = {X Y}, title = {Deep Learning}, year = {2020},}''"

definition squeeze :: "string \<Rightarrow> string" where
  "squeeze s = filter (\<lambda>c. \<not> is_space c) s"


subsection \<open>Serialized records\<close>


























section \<open>Properties\<close>

subsection \<open>Brace balancing\<close>

lemma opens_append [simp]: "opens (a @ b) = opens a + opens b"
  by (simp add: opens_def)

lemma closes_append [simp]: "closes (a @ b) = closes a + closes b"
  by (simp add: closes_def)

lemma opens_closes_replicate [simp]:
  "opens (replicate n CHR ''}'') = 0" "closes (replicate n CHR ''}'') = n"
  by (induction n) (simp_all add: opens_def closes_def)

text \<open>
  The loop invariant: the counter is the number of opening braces of the result not yet
  closed, and no prefix of the result closes more than it opens.
\<close>

definition well_open :: "string \<Rightarrow> nat \<Rightarrow> bool" where
  "well_open r n \<longleftrightarrow> opens r = closes r + n \<and> (\<forall>k. closes (take k r) \<le> opens (take k r))"

lemma well_open_snoc_other:
  assumes "well_open r n" "c \<noteq> CHR ''{''" "c \<noteq> CHR ''}''"
  shows "well_open (r @ [c]) n"
proof -
  have "closes (take k (r @ [c])) \<le> opens (take k (r @ [c]))" for k
  proof (cases "k \<le> length r")
    case True
    then show ?thesis using assms(1) by (simp add: well_open_def)
  next
    case False
    then have "take k (r @ [c]) = r @ [c]" by simp
    then show ?thesis using assms by (simp add: well_open_def opens_def closes_def)
  qed
  then show ?thesis using assms by (simp add: well_open_def opens_def closes_def)
qed

lemma well_open_snoc_open:
  assumes "well_open r n"
  shows "well_open (r @ [CHR ''{'']) (Suc n)"
proof -
  have "closes (take k (r @ [CHR ''{''])) \<le> opens (take k (r @ [CHR ''{'']))" for k
  proof (cases "k \<le> length r")
    case True
    then show ?thesis using assms by (simp add: well_open_def)
  next
    case False
    then have "take k (r @ [CHR ''{'']) = r @ [CHR ''{'']" by simp
    then show ?thesis using assms by (simp add: well_open_def opens_def closes_def)
  qed
  then show ?thesis using assms by (simp add: well_open_def opens_def closes_def)
qed

lemma well_open_snoc_close:
  assumes "well_open r (Suc n)"
  shows "well_open (r @ [CHR ''}'']) n"
proof -
  have "closes (take k (r @ [CHR ''}''])) \<le> opens (take k (r @ [CHR ''}'']))" for k
  proof (cases "k \<le> length r")
    case True
    then show ?thesis using assms by (simp add: well_open_def)
  next
    case False
    then have "take k (r @ [CHR ''}'']) = r @ [CHR ''}'']" by simp
    then show ?thesis using assms by (simp add: well_open_def opens_def closes_def)
  qed
  then show ?thesis using assms by (simp add: well_open_def opens_def closes_def)
qed

lemma balance_loop_well_open:
  "well_open r n \<Longrightarrow> balance_loop r n cs = (r', n') \<Longrightarrow> well_open r' n'"
proof (induction cs arbitrary: r n)
  case Nil
  then show ?case by simp
next
  case (Cons c cs)
  show ?case
  proof (cases "c = CHR ''{''")
    case True
    with Cons.prems have "balance_loop (r @ [CHR ''{'']) (Suc n) cs = (r', n')" by simp
    then show ?thesis
      using Cons.IH well_open_snoc_open [OF Cons.prems(1)] by blast
  next
    case notopen: False
    show ?thesis
    proof (cases "c = CHR ''}''")
      case True
      show ?thesis
      proof (cases n)
        case 0
        with True Cons.prems have "balance_loop r n cs = (r', n')" by simp
        then show ?thesis using Cons.IH Cons.prems(1) by blast
      next
        case (Suc m)
        with True Cons.prems have "balance_loop (r @ [CHR ''}'']) m cs = (r', n')" by simp
        moreover have "well_open (r @ [CHR ''}'']) m"
          using well_open_snoc_close Cons.prems(1) Suc by blast
        ultimately show ?thesis using Cons.IH by blast
      qed
    next
      case False
      with notopen Cons.prems have "balance_loop (r @ [c]) n cs = (r', n')" by simp
      then show ?thesis
        using Cons.IH well_open_snoc_other [OF Cons.prems(1) notopen False] by blast
    qed
  qed
qed

lemma well_open_close_all:
  assumes "well_open r n"
  shows "well_open (r @ replicate n CHR ''}'') 0"
  using assms
proof (induction n arbitrary: r)
  case 0
  then show ?case by simp
next
  case (Suc n)
  have "well_open ((r @ [CHR ''}'']) @ replicate n CHR ''}'') 0"
    using Suc.IH well_open_snoc_close [OF Suc.prems] by blast
  then show ?case by (simp add: replicate_app_Cons_same)
qed

lemma well_open_empty: "well_open [] 0"
  by (simp add: well_open_def opens_def closes_def)

lemma balance_braces_well_open: "well_open (balance_braces s) 0"
proof -
  obtain r n where rn: "balance_loop [] 0 (strip s) = (r, n)" by force
  have w: "well_open r n" using balance_loop_well_open [OF well_open_empty rn] .
  show ?thesis
  proof (cases n)
    case 0
    then show ?thesis using w rn by (simp add: balance_braces_def)
  next
    case (Suc m)
    then show ?thesis using well_open_close_all [OF w] rn by (simp add: balance_braces_def)
  qed
qed

text \<open>
  Claim C3. For every input text, the output of the brace-balancing function has as many
  opening as closing braces, and every prefix of the output has closed at most as many
  braces as it has opened.
\<close>

theorem balance_braces_balanced:
  "opens (balance_braces s) = closes (balance_braces s) \<and>
   (\<forall>k. closes (take k (balance_braces s)) \<le> opens (take k (balance_braces s)))"
  using balance_braces_well_open [of s] by (simp add: well_open_def)

theorem balance_braces_balanced_witness:
  "balance_braces ''a}{b{c'' = ''a{b{c}}'' \<and>
   opens (balance_braces ''a}{b{c'') = closes (balance_braces ''a}{b{c'') \<and>
   (\<forall>k. closes (take k (balance_braces ''a}{b{c'')) \<le> opens (take k (balance_braces ''a}{b{c'')))"
proof -
  have "balance_braces ''a}{b{c'' = ''a{b{c}}''"
    by (simp add: balance_braces_def strip_def lstrip_def rstrip_def is_space_def)
  then show ?thesis using balance_braces_balanced [of "''a}{b{c''"] by simp
qed

subsection \<open>Title extraction\<close>


lemma rstrip_Nil [simp]: "rstrip [] = []" by (simp add: rstrip_def)




















subsection \<open>Minimal serialization\<close>




subsection \<open>Evaluating the patterns\<close>

lemmas char_class_defs = is_space_def is_word_def is_char_def any_char_def not_newline_def key_char_def is_quote_def is_upper_def
lemmas pattern_defs = entry_pattern_def field_pattern_def next_field_ahead_def trailing_comma_pattern_def
  quoted_pattern_def braced_pattern_def


subsection \<open>Preprint filter and acceptance\<close>











subsection \<open>Order preservation\<close>

lemma process_entries_appends:
  "\<exists>new. fst (fst (process_entries env m entries updated failed w)) = updated @ new \<and>
         list_all2 (kept_or_substituted env m) entries new"
proof (induction entries arbitrary: updated failed w)
  case Nil
  then show ?case by simp
next
  case (Cons entry entries)
  have step: "\<exists>new. fst (fst (process_entries env m entries (updated @ [out]) failed' w')) = updated @ new \<and>
         list_all2 (kept_or_substituted env m) (entry # entries) new"
    if "kept_or_substituted env m entry out" for out failed' w'
  proof -
    obtain new where "fst (fst (process_entries env m entries (updated @ [out]) failed' w')) = (updated @ [out]) @ new"
      and "list_all2 (kept_or_substituted env m) entries new"
      using Cons.IH by blast
    then have "fst (fst (process_entries env m entries (updated @ [out]) failed' w')) = updated @ (out # new)
       \<and> list_all2 (kept_or_substituted env m) (entry # entries) (out # new)"
      using that by simp
    then show ?thesis by blast
  qed
  have kept: "kept_or_substituted env m entry entry" by (simp add: kept_or_substituted_def)
  show ?case
  proof (cases "get_title entry = []")
    case True
    then show ?thesis using step [OF kept] by simp
  next
    case False
    obtain r w1 where s: "search_by_title env m (get_title entry) w = (r, w1)" by force
    show ?thesis
    proof (cases r)
      case None
      then show ?thesis using False s step [OF kept] by simp
    next
      case (Some h)
      obtain d w2 where d: "download_bibtex_from_dblp env m h (cite_key entry) w1 = (d, w2)" by force
      show ?thesis
      proof (cases d)
        case None
        then show ?thesis using False s Some d step [OF kept] by simp
      next
        case (Some out)
        have "kept_or_substituted env m entry out"
          unfolding kept_or_substituted_def using s \<open>r = Some h\<close> d Some by blast
        then show ?thesis using False s \<open>r = Some h\<close> d Some step by simp
      qed
    qed
  qed
qed

text \<open>
  Claim C2. For every list of \<open>N\<close> parsed input records the loop of \<open>main\<close> produces
  exactly \<open>N\<close> output records, and the output record at each position is either the
  input record of that position, unchanged, or the canonical record retrieved for it, under
  its key; whatever the searches and retrievals answer.
\<close>

theorem process_entries_one_to_one:
  "length (fst (fst (process_entries env m entries [] [] w))) = length entries \<and>
   list_all2 (kept_or_substituted env m) entries (fst (fst (process_entries env m entries [] [] w)))"
  using process_entries_appends [of env m entries "[]" "[]" w]
  by (auto dest: list_all2_lengthD)

subsection \<open>Retrieval\<close>

lemma download_attempts_Some:
  "download_attempts env m url key w = (Some e, w') \<Longrightarrow>
   \<exists>w1 text first others. bib_get env url w1 = (Body text, w') \<and> strip text \<noteq> [] \<and>
      parse_content text = first # others \<and> e = first\<lparr>cite_key := key\<rparr>"
proof (induction m arbitrary: w)
  case 0
  then show ?case by simp
next
  case (Suc m)
  obtain r w1 where g: "bib_get env url w = (r, w1)" by force
  show ?case
  proof (cases r)
    case RequestError
    then show ?thesis using Suc g by (auto split: if_splits)
  next
    case OtherError
    then show ?thesis using Suc g by auto
  next
    case (Body content)
    then show ?thesis using Suc.prems g by (auto split: if_splits list.splits)
  qed
qed

text \<open>
  Claim C9. Whenever \<open>download_bibtex_from_dblp\<close> returns a record, the text of a
  response parses to at least one record, and the returned record is the first of them with
  its key overwritten by the replacement key: its entry type and its fields are those of the
  retrieved record.
\<close>

theorem download_first_record_rekeyed:
  assumes "download_bibtex_from_dblp env m h key w = (Some e, w')"
  shows "\<exists>w1 text first others.
           bib_get env (hit_url h @ ''.bib?param=1'') w1 = (Body text, w') \<and>
           parse_content text = first # others \<and>
           e = first\<lparr>cite_key := key\<rparr> \<and>
           cite_key e = key \<and> entry_type e = entry_type first \<and> entry_fields e = entry_fields first"
proof -
  have "download_attempts env m (hit_url h @ ''.bib?param=1'') key w = (Some e, w')"
    using assms by (simp add: download_bibtex_from_dblp_def Let_def split: if_splits)
  from download_attempts_Some [OF this] show ?thesis by fastforce
qed

subsection \<open>Field values\<close>








subsection \<open>Lowercase entry types\<close>













subsection \<open>The worked example\<close>

lemma parse_retrieved_one_line: "parse_content retrieved_one_line = []"
  by code_simp

lemma parse_retrieved_lines: "parse_content retrieved_lines =
   [\<lparr>entry_type = ''article'', cite_key = ''newkey'',
     entry_fields = [''title'' \<mapsto> ''Deep Learning'', ''author'' \<mapsto> ''X Y'', ''year'' \<mapsto> ''2020'']\<rparr>]"
  by (simp add: retrieved_lines_def parse_content_def parse_entry_def parse_fields_def parse_field_def
     unwrap_value_def re_sub_start_def group_def between_def BibtexEntry_def lower_def lower_char_def
     strip_def lstrip_def rstrip_def char_class_defs pattern_defs)

lemma input_entry_title: "get_title input_entry = ''Deep Learning''"
  by (simp add: input_entry_def get_title_def get_or_empty_def remove_braces_def strip_def lstrip_def rstrip_def is_space_def)

lemma mock_search: "search_by_title (mock_env [mock_hit] bib) 3 ''Deep Learning'' w = (Some mock_hit, w + 1)"
  by (simp add: search_by_title_def numeral_3_eq_3 search_try_def after_hits_def mock_env_def choose_hit_def
      filter_arxiv_hits_def is_arxiv_hit_def mock_hit_def mentions_arxiv_def lower_def lower_char_def is_upper_def
      strip_def lstrip_def rstrip_def is_space_def)

lemma mock_download_one_line: "download_bibtex_from_dblp (mock_env hits retrieved_one_line) 3 mock_hit key w = (None, w + 1)"
  by (simp add: download_bibtex_from_dblp_def numeral_3_eq_3 mock_env_def mock_hit_def parse_retrieved_one_line)

lemma mock_download_lines: "download_bibtex_from_dblp (mock_env hits retrieved_lines) 3 mock_hit ''ab12'' w =
   (Some \<lparr>entry_type = ''article'', cite_key = ''ab12'',
     entry_fields = [''title'' \<mapsto> ''Deep Learning'', ''author'' \<mapsto> ''X Y'', ''year'' \<mapsto> ''2020'']\<rparr>, w + 1)"
  by (simp add: download_bibtex_from_dblp_def numeral_3_eq_3 mock_env_def mock_hit_def parse_retrieved_lines)
     (simp add: retrieved_lines_def strip_def lstrip_def rstrip_def is_space_def)

lemma input_entry_key: "cite_key input_entry = ''ab12''"
  by (simp add: input_entry_def)

theorem download_first_record_rekeyed_witness:
  "download_bibtex_from_dblp (mock_env [] retrieved_lines) 3 mock_hit ''ab12'' 0 =
     (Some \<lparr>entry_type = ''article'', cite_key = ''ab12'',
        entry_fields = [''title'' \<mapsto> ''Deep Learning'', ''author'' \<mapsto> ''X Y'', ''year'' \<mapsto> ''2020'']\<rparr>, 1) \<and>
   (\<exists>w1 content first others.
      bib_get (mock_env [] retrieved_lines) (hit_url mock_hit @ ''.bib?param=1'') w1 = (Body content, 1) \<and>
      parse_content content = first # others \<and>
      cite_key first = ''newkey'' \<and> entry_type first = ''article'' \<and>
      entry_fields first = [''title'' \<mapsto> ''Deep Learning'', ''author'' \<mapsto> ''X Y'', ''year'' \<mapsto> ''2020''])"
proof -
  have d: "download_bibtex_from_dblp (mock_env [] retrieved_lines) 3 mock_hit ''ab12'' 0 =
     (Some \<lparr>entry_type = ''article'', cite_key = ''ab12'',
        entry_fields = [''title'' \<mapsto> ''Deep Learning'', ''author'' \<mapsto> ''X Y'', ''year'' \<mapsto> ''2020'']\<rparr>, 1)"
    using mock_download_lines [of "[]" 0] by simp
  from download_first_record_rekeyed [OF d]
  obtain w1 content first others where
    g: "bib_get (mock_env [] retrieved_lines) (hit_url mock_hit @ ''.bib?param=1'') w1 = (Body content, 1)"
    and p: "parse_content content = first # others"
    and t: "entry_type first = ''article''"
    and f: "entry_fields first = [''title'' \<mapsto> ''Deep Learning'', ''author'' \<mapsto> ''X Y'', ''year'' \<mapsto> ''2020'']"
    by auto
  have "content = retrieved_lines" using g by (simp add: mock_env_def)
  then have "cite_key first = ''newkey''" using p by (auto simp: parse_retrieved_lines)
  then show ?thesis using d g p t f by blast
qed

lemma kept_output: "map to_bibtex (fst (fst (process_entries (mock_env [mock_hit] retrieved_one_line) 3 [input_entry] [] [] 0)))
   = [join [CHR 0x0A] [''@article{ab12,'', ''  author = {X Y},'', ''  title = {Deep Learning},'', ''}'']]"
  by (simp add: input_entry_title mock_search mock_download_one_line)
    (simp add: input_entry_def to_bibtex_def to_bibtex_lines_def essential_fields_def has_value_def
       header_line_def field_line_def format_value_def lower_def lower_char_def is_upper_def)

lemma replaced_output: "map to_bibtex (fst (fst (process_entries (mock_env [mock_hit] retrieved_lines) 3 [input_entry] [] [] 0)))
   = [join [CHR 0x0A] [''@article{ab12,'', ''  author = {X Y},'', ''  title = {Deep Learning},'', ''  year = 2020,'', ''}'']]"
  by (simp add: input_entry_title mock_search mock_download_lines input_entry_key)
    (simp add: input_entry_def to_bibtex_def to_bibtex_lines_def essential_fields_def has_value_def
       header_line_def field_line_def format_value_def lower_def lower_char_def is_upper_def)

lemma parse_input_lines: "parse_content input_lines = [input_entry]"
  by (simp add: input_lines_def input_entry_def parse_content_def parse_entry_def parse_fields_def parse_field_def
     unwrap_value_def re_sub_start_def group_def between_def BibtexEntry_def lower_def lower_char_def
     strip_def lstrip_def rstrip_def char_class_defs pattern_defs)

lemma parse_input_one_line: "parse_content ''@article{ab12, title = {Deep Learning}, author = {X Y}, venue = {noise} }'' = []"
  by code_simp

lemma example_process_entries: "process_entries (mock_env [mock_hit] retrieved_lines) 3 [input_entry] [] [] 0 =
   (([\<lparr>entry_type = ''article'', cite_key = ''ab12'',
     entry_fields = [''title'' \<mapsto> ''Deep Learning'', ''author'' \<mapsto> ''X Y'', ''year'' \<mapsto> ''2020'']\<rparr>], []), 2)"
  by (simp add: input_entry_title mock_search mock_download_lines input_entry_key)

theorem process_entries_one_to_one_witness:
  "length (fst (fst (process_entries (mock_env [mock_hit] retrieved_lines) 3 [input_entry] [] [] 0))) = 1 \<and>
   kept_or_substituted (mock_env [mock_hit] retrieved_lines) 3 input_entry
     \<lparr>entry_type = ''article'', cite_key = ''ab12'',
        entry_fields = [''title'' \<mapsto> ''Deep Learning'', ''author'' \<mapsto> ''X Y'', ''year'' \<mapsto> ''2020'']\<rparr>"
  using process_entries_one_to_one [of "mock_env [mock_hit] retrieved_lines" 3 "[input_entry]" 0]
  unfolding example_process_entries by simp

lemma example_to_bibtex: "to_bibtex \<lparr>entry_type = ''article'', cite_key = ''ab12'',
     entry_fields = [''title'' \<mapsto> ''Deep Learning'', ''author'' \<mapsto> ''X Y'', ''year'' \<mapsto> ''2020'']\<rparr>
   = join [CHR 0x0A] [''@article{ab12,'', ''  author = {X Y},'', ''  title = {Deep Learning},'', ''  year = 2020,'', ''}'']"
  by (simp add: to_bibtex_def to_bibtex_lines_def essential_fields_def has_value_def
       header_line_def field_line_def format_value_def lower_def lower_char_def is_upper_def)

text \<open>
  Against claim C6 as stated: with the retrieved text on one line, as the claim writes it,
  nothing is parsed from it and the original record is written; with the retrieved text
  broken into lines the year is written bare. Neither output is the claimed one, even with
  all whitespace disregarded.
\<close>

theorem example_output_differs:
  "squeeze (hd (map to_bibtex (fst (fst (process_entries
      (mock_env [mock_hit] retrieved_one_line) 3 [input_entry] [] [] 0)))))
    \<noteq> squeeze claimed_output \<and>
   squeeze (hd (map to_bibtex (fst (fst (process_entries
      (mock_env [mock_hit] retrieved_lines) 3 [input_entry] [] [] 0)))))
    \<noteq> squeeze claimed_output"
  unfolding kept_output replaced_output by (simp add: squeeze_def claimed_output_def is_space_def)

text \<open>
  Claim C6, as amended. For the input record with key \<open>ab12\<close> and the fields title
  \<open>Deep Learning\<close>, author \<open>X Y\<close> and venue \<open>noise\<close>, a search that returns exactly one
  candidate that is no preprint, and a retrieval that yields the record \<open>newkey\<close> with
  title, author and year 2020 written with its closing brace on a line of its own, the
  output for the entry is the header \<open>@article{ab12,\<close>, the lines of author, title and
  year in this order, and the closing brace: the key is preserved, only allow-listed fields
  are written, and the year is written bare, \<open>year = 2020,\<close>, since its value has no space
  and none of the characters \<open>- : / .\<close>. The same holds for \<open>main\<close> on the text of the
  input record written with its closing brace on a line of its own.
\<close>

theorem example_output:
  "map to_bibtex (fst (fst (process_entries
      (mock_env [mock_hit] retrieved_lines) 3 [input_entry] [] [] 0)))
   = [join [CHR 0x0A]
        [''@article{ab12,'', ''  author = {X Y},'', ''  title = {Deep Learning},'',
         ''  year = 2020,'', ''}'']] \<and>
   main (mock_env [mock_hit] retrieved_lines) input_lines 0
   = Some (join [CHR 0x0A]
        [''@article{ab12,'', ''  author = {X Y},'', ''  title = {Deep Learning},'',
         ''  year = 2020,'', ''}'', [], []], [])"
  unfolding main_def parse_input_lines Let_def example_process_entries by (simp add: example_to_bibtex write_entries_def)

subsection \<open>Serializing, parsing and serializing again\<close>







lemma next_field_ahead_no:
  assumes "s \<noteq> []" "hd s \<noteq> CHR '',''" "s \<noteq> [CHR 0x0A]"
  shows "\<not> next_field_ahead s"
  using assms by (cases s) (auto simp: next_field_ahead_def is_char_def)






























lemma rmatch_field_Nil: "rmatch field_pattern [] = None"
  by (simp add: field_pattern_def)

lemma finditer_field_Nil: "finditer field_pattern [] = []"
  by (simp add: rmatch_field_Nil)


















































































end
